theory Spec2Isabelle
  imports Main
begin

section \<open>JavaScript values and built-ins used by \<^verbatim>\<open>src/index.ts\<close>\<close>

text \<open>
  Strings are lists of characters; the program only concatenates them, compares them,
  tests a prefix and drops a prefix, so one \<^typ>\<open>char\<close> stands for one code unit.
  JSON payloads that the program never inspects (\<^verbatim>\<open>input\<close>, \<^verbatim>\<open>content\<close>,
  \<^verbatim>\<open>args\<close>, schemas, \<^verbatim>\<open>temperature\<close>) are values of a type variable \<open>'j\<close>.
  \<^verbatim>\<open>JSON.stringify\<close>, \<^verbatim>\<open>JSON.parse\<close>, \<^verbatim>\<open>parseInt\<close>, \<^verbatim>\<open>Math.random\<close>,
  \<^verbatim>\<open>uuidv4\<close> and the upstream client are not code of this program: they are parameters.
  A thrown exception is a value \<open>Inl e\<close> of type \<open>error + 'a\<close>.
  Token counts and token limits are integers.
  Calls of \<^verbatim>\<open>console.log\<close> and \<^verbatim>\<open>console.error\<close> have no effect on any result
  and are left out.
\<close>

datatype error = SyntaxError | TypeError | UpstreamError

text \<open>Truthiness of a \<^verbatim>\<open>string | undefined | null\<close>: only a non-empty string is truthy.\<close>

definition truthy :: "string option \<Rightarrow> bool" where
  "truthy v = (case v of None \<Rightarrow> False | Some s \<Rightarrow> s \<noteq> [])"

text \<open>\<^verbatim>\<open>a || b\<close> on two such values.\<close>

definition or_else :: "string option \<Rightarrow> string option \<Rightarrow> string option" where
  "or_else a b = (if truthy a then a else b)"

text \<open>\<^verbatim>\<open>s || d\<close> where \<open>d\<close> is a string: the default replaces an absent or empty \<open>s\<close>.\<close>

definition str_or :: "string option \<Rightarrow> string \<Rightarrow> string" where
  "str_or v d = (case v of None \<Rightarrow> d | Some s \<Rightarrow> if s = [] then d else s)"

text \<open>\<^verbatim>\<open>n || d\<close> on a \<^verbatim>\<open>number | undefined\<close>: zero and the absent value are falsy.\<close>

definition num_or :: "int option \<Rightarrow> int \<Rightarrow> int" where
  "num_or v d = (case v of None \<Rightarrow> d | Some n \<Rightarrow> if n = 0 then d else n)"

definition newline :: string where
  "newline = [CHR 0x0A]"

text \<open>\<^verbatim>\<open>Array.prototype.join\<close> on an array of strings.\<close>

fun join :: "string \<Rightarrow> string list \<Rightarrow> string" where
  "join sep [] = []"
| "join sep [x] = x"
| "join sep (x # y # ys) = x @ sep @ join sep (y # ys)"

definition startsWith :: "string \<Rightarrow> string \<Rightarrow> bool" where
  "startsWith s p = (take (length p) s = p)"

text \<open>\<^verbatim>\<open>s.slice(n)\<close> and \<^verbatim>\<open>s.substring(a, b)\<close> for \<open>0 \<le> n\<close> and \<open>0 \<le> a \<le> b\<close>.\<close>

definition slice :: "string \<Rightarrow> nat \<Rightarrow> string" where
  "slice s n = drop n s"

definition substring :: "string \<Rightarrow> nat \<Rightarrow> nat \<Rightarrow> string" where
  "substring s a b = take (b - a) (drop a s)"

section \<open>Data model\<close>

subsection \<open>Claude Messages API\<close>

datatype 'j ContentBlock =
    TextBlock string
  | ToolUseBlock string string 'j
  | ToolResultBlock string 'j

datatype 'j MessageContent =
    StringContent string
  | BlockContent "'j ContentBlock list"

record 'j Message =
  role :: string
  content :: "'j MessageContent"

subsection \<open>OpenAI chat completions\<close>

record ToolFunction =
  fn_name :: string
  arguments :: string

record ToolCall =
  call_id :: string
  call_type :: string
  call_function :: ToolFunction

text \<open>
  A chat message; \<open>oa_content = None\<close> is \<^verbatim>\<open>null\<close> (or an absent field),
  \<open>tool_calls = None\<close> is an absent (or \<^verbatim>\<open>null\<close>) field.
\<close>

record ChatMessage =
  oa_role :: string
  oa_content :: "string option"
  tool_calls :: "ToolCall list option"

record 'j FunctionDef =
  def_name :: string
  def_description :: string
  def_parameters :: 'j

record 'j FunctionTool =
  tool_type :: string
  tool_function :: "'j FunctionDef"

record Usage =
  prompt_tokens :: "int option"
  completion_tokens :: "int option"
  total_tokens :: "int option"

record Choice =
  message :: ChatMessage
  finish_reason :: "string option"

record Completion =
  choices :: "Choice list"
  usage :: "Usage option"

text \<open>
  The arguments of \<^verbatim>\<open>client.chat.completions.create\<close>, together with the two
  values the client was constructed from. A \<^verbatim>\<open>tool_choice\<close> is a string (\<open>Inl\<close>)
  or an object \<^verbatim>\<open>{type, name?}\<close> (\<open>Inr\<close>).
\<close>

record 'j CreateParams =
  c_apiKey :: string
  c_baseURL :: string
  c_model :: string
  c_messages :: "ChatMessage list"
  c_temperature :: "'j option"
  c_max_tokens :: int
  c_tools :: "'j FunctionTool list option"
  c_tool_choice :: "(string + string \<times> string option) option"
  c_stream :: bool

subsection \<open>Claude Messages API, continued\<close>

record 'j Tool =
  t_name :: string
  t_description :: "string option"
  input_schema :: 'j

record 'j MessagesRequest =
  model :: string
  messages :: "'j Message list"
  max_tokens :: "int option"
  temperature :: "'j option"
  tools :: "'j Tool list option"
  tool_choice :: "(string + string \<times> string option) option"

record 'j ClaudeResponse =
  r_id :: string
  r_model :: string
  r_role :: string
  r_type :: string
  r_content :: "'j ContentBlock list"
  stop_reason :: string
  stop_sequence :: "string option"
  input_tokens :: int
  output_tokens :: int

subsection \<open>Gemini generateContent API\<close>

record 'j FunctionCall =
  fc_name :: string
  args :: 'j

text \<open>
  A part is an object with four optional fields, as the interface \<^verbatim>\<open>GeminiPart\<close>
  declares it; \<open>inlineData\<close> is \<^verbatim>\<open>(mimeType, data)\<close> and \<open>functionResponse\<close> is
  \<^verbatim>\<open>(name, response)\<close>.
\<close>

record 'j GeminiPart =
  part_text :: "string option"
  inlineData :: "(string \<times> string) option"
  functionCall :: "'j FunctionCall option"
  functionResponse :: "(string \<times> 'j) option"

record 'j GeminiContent =
  g_role :: string
  g_parts :: "'j GeminiPart list"

record 'j FunctionDeclaration =
  fd_name :: string
  fd_description :: string
  fd_parameters :: 'j

record 'j GenerationConfig =
  gc_temperature :: "'j option"
  maxOutputTokens :: "int option"
  topP :: "'j option"
  topK :: "'j option"

text \<open>Each element of \<open>g_tools\<close> is the \<^verbatim>\<open>function_declarations\<close> list of one tool.\<close>

record 'j GeminiRequest =
  contents :: "'j GeminiContent list"
  generationConfig :: "'j GenerationConfig option"
  g_tools :: "'j FunctionDeclaration list list option"

text \<open>The object returned by \<^verbatim>\<open>convertGeminiToOpenAI\<close>.\<close>

record 'j OpenAIParams =
  p_messages :: "ChatMessage list"
  p_tools :: "'j FunctionTool list option"
  p_max_tokens :: "int option"
  p_temperature :: "'j option"

record 'j Candidate =
  cand_parts :: "'j GeminiPart list"
  cand_role :: string
  finishReason :: string
  index :: nat

record 'j GeminiResponse =
  candidates :: "'j Candidate list"
  promptTokenCount :: int
  candidatesTokenCount :: int
  totalTokenCount :: int
  modelVersion :: string

subsection \<open>Environment, provider, HTTP\<close>

record Env =
  TARGET_MODEL :: "string option"
  TARGET_PROVIDER :: "string option"
  TARGET_BASE_URL :: "string option"
  TARGET_MAX_TOKENS :: "string option"

record TargetConfig =
  cfg_model :: string
  cfg_provider :: string
  cfg_baseURL :: string
  cfg_maxTokens :: int

record Provider =
  p_name :: string
  p_baseURL :: string
  p_models :: "string list"
  maxTokens :: int

record Headers =
  Authorization :: "string option"
  x_api_key :: "string option"
  x_goog_api_key :: "string option"

text \<open>
  A response body: the flat \<^verbatim>\<open>{error: string}\<close>, the nested
  \<^verbatim>\<open>{error: {code, message, status}}\<close>, or a translated completion.
\<close>

datatype 'j ResponseBody =
    ErrorString string
  | ErrorObject int string string
  | ClaudeBody "'j ClaudeResponse"
  | GeminiBody "'j GeminiResponse"

record 'j HttpResponse =
  status :: nat
  body :: "'j ResponseBody"

text \<open>
  What the program takes from outside itself. \<open>Math_random k\<close> is the text
  \<^verbatim>\<open>Math.random().toString(36)\<close> of the \<open>k\<close>-th draw; \<open>create\<close> is the upstream
  call; \<open>parseInt\<close> returns an integer (the not-a-number result is outside this model).
\<close>

record 'j Runtime =
  JSON_stringify :: "'j \<Rightarrow> string"
  JSON_parse :: "string \<Rightarrow> error + 'j"
  parseInt :: "string \<Rightarrow> int"
  Math_random :: "nat \<Rightarrow> string"
  uuidv4 :: string
  create :: "'j CreateParams \<Rightarrow> error + Completion"

section \<open>Configuration\<close>

definition getTargetConfig :: "(string \<Rightarrow> int) \<Rightarrow> Env \<Rightarrow> TargetConfig" where
  "getTargetConfig parse_int env =
     \<lparr>cfg_model = str_or (TARGET_MODEL env) ''moonshotai/kimi-k2-instruct'',
      cfg_provider = str_or (TARGET_PROVIDER env) ''groq'',
      cfg_baseURL = str_or (TARGET_BASE_URL env) ''https://api.groq.com/openai/v1'',
      cfg_maxTokens = parse_int (str_or (TARGET_MAX_TOKENS env) ''16384'')\<rparr>"

definition createProvider :: "(string \<Rightarrow> int) \<Rightarrow> Env \<Rightarrow> Provider" where
  "createProvider parse_int env =
     (let config = getTargetConfig parse_int env
      in \<lparr>p_name = cfg_provider config,
          p_baseURL = cfg_baseURL config,
          p_models = [cfg_model config],
          maxTokens = cfg_maxTokens config\<rparr>)"

section \<open>Credential extraction\<close>

definition extractApiKey :: "string option \<Rightarrow> string option" where
  "extractApiKey authorization =
     (if \<not> truthy authorization then None
      else case authorization of
             None \<Rightarrow> None
           | Some a \<Rightarrow> if startsWith a ''Bearer '' then Some (slice a 7) else Some a)"

section \<open>Claude request translation\<close>

text \<open>The loop over the blocks of one message; \<open>parts\<close> is the array being filled.\<close>

fun blocks_loop :: "('j \<Rightarrow> string) \<Rightarrow> 'j ContentBlock list \<Rightarrow> string list \<Rightarrow> string list" where
  "blocks_loop stringify [] parts = parts"
| "blocks_loop stringify (TextBlock t # bs) parts =
     blocks_loop stringify bs (parts @ [t])"
| "blocks_loop stringify (ToolUseBlock i n inp # bs) parts =
     blocks_loop stringify bs (parts @ [''[Tool Use: '' @ n @ ''] '' @ stringify inp])"
| "blocks_loop stringify (ToolResultBlock i c # bs) parts =
     blocks_loop stringify bs (parts @ [''<tool_result>'' @ stringify c @ ''</tool_result>''])"

definition convertMessage :: "('j \<Rightarrow> string) \<Rightarrow> 'j Message \<Rightarrow> ChatMessage" where
  "convertMessage stringify m =
     (case content m of
        StringContent s \<Rightarrow> \<lparr>oa_role = role m, oa_content = Some s, tool_calls = None\<rparr>
      | BlockContent bs \<Rightarrow>
          \<lparr>oa_role = role m,
           oa_content = Some (join newline (blocks_loop stringify bs [])),
           tool_calls = None\<rparr>)"

definition convertMessages :: "('j \<Rightarrow> string) \<Rightarrow> 'j Message list \<Rightarrow> ChatMessage list" where
  "convertMessages stringify msgs = map (convertMessage stringify) msgs"

text \<open>The flattening of one block as the specification words it.\<close>

fun block_text :: "('j \<Rightarrow> string) \<Rightarrow> 'j ContentBlock \<Rightarrow> string" where
  "block_text stringify (TextBlock t) = t"
| "block_text stringify (ToolUseBlock i n inp) = ''[Tool Use: '' @ n @ ''] '' @ stringify inp"
| "block_text stringify (ToolResultBlock i c) = ''<tool_result>'' @ stringify c @ ''</tool_result>''"

definition convertTool :: "'j Tool \<Rightarrow> 'j FunctionTool" where
  "convertTool t =
     \<lparr>tool_type = ''function'',
      tool_function = \<lparr>def_name = t_name t,
                       def_description = str_or (t_description t) [],
                       def_parameters = input_schema t\<rparr>\<rparr>"

definition convertTools :: "'j Tool list \<Rightarrow> 'j FunctionTool list" where
  "convertTools ts = map convertTool ts"

section \<open>Claude response translation\<close>

text \<open>The loop of \<^verbatim>\<open>convertToolCallsToAnthropic\<close>; \<^verbatim>\<open>JSON.parse\<close> may throw.\<close>

fun tool_use_loop ::
  "(string \<Rightarrow> error + 'j) \<Rightarrow> ToolCall list \<Rightarrow> 'j ContentBlock list \<Rightarrow> error + 'j ContentBlock list" where
  "tool_use_loop parse [] blocks = Inr blocks"
| "tool_use_loop parse (call # calls) blocks =
     (case parse (arguments (call_function call)) of
        Inl e \<Rightarrow> Inl e
      | Inr a \<Rightarrow>
          tool_use_loop parse calls
            (blocks @ [ToolUseBlock (call_id call) (fn_name (call_function call)) a]))"

definition convertToolCallsToAnthropic ::
  "(string \<Rightarrow> error + 'j) \<Rightarrow> ToolCall list \<Rightarrow> error + 'j ContentBlock list" where
  "convertToolCallsToAnthropic parse toolCalls = tool_use_loop parse toolCalls []"

text \<open>
  The branch \<^verbatim>\<open>if (msg.tool_calls) ... else ...\<close> of the \<^verbatim>\<open>/v1/messages\<close>
  handler: the content blocks and the stop reason. An array is truthy, the empty one too.
\<close>

definition contentAndStopReason ::
  "(string \<Rightarrow> error + 'j) \<Rightarrow> ChatMessage \<Rightarrow> error + 'j ContentBlock list \<times> string" where
  "contentAndStopReason parse msg =
     (case tool_calls msg of
        Some toolCalls \<Rightarrow>
          (case convertToolCallsToAnthropic parse toolCalls of
             Inl e \<Rightarrow> Inl e
           | Inr blocks \<Rightarrow> Inr (blocks, ''tool_use''))
      | None \<Rightarrow> Inr ([TextBlock (str_or (oa_content msg) [])], ''end_turn''))"

section \<open>Gemini request translation\<close>

text \<open>
  The inner loop over the parts of one content entry. The state is the number of
  random draws made so far and the two arrays \<^verbatim>\<open>textParts\<close> and \<^verbatim>\<open>toolCalls\<close>.
\<close>

fun parts_loop ::
  "(nat \<Rightarrow> string) \<Rightarrow> ('j \<Rightarrow> string) \<Rightarrow> 'j GeminiPart list \<Rightarrow>
   nat \<times> string list \<times> ToolCall list \<Rightarrow> nat \<times> string list \<times> ToolCall list" where
  "parts_loop random stringify [] st = st"
| "parts_loop random stringify (part # ps) (k, textParts, toolCalls) =
     (if truthy (part_text part) then
        parts_loop random stringify ps (k, textParts @ [str_or (part_text part) []], toolCalls)
      else
        (case functionCall part of
           Some fc \<Rightarrow>
             parts_loop random stringify ps
               (Suc k, textParts,
                toolCalls @
                  [\<lparr>call_id = ''call_'' @ substring (random k) 2 15,
                    call_type = ''function'',
                    call_function = \<lparr>fn_name = fc_name fc, arguments = stringify (args fc)\<rparr>\<rparr>])
         | None \<Rightarrow> parts_loop random stringify ps (k, textParts, toolCalls)))"

text \<open>The body of the outer loop: one content entry becomes one message.\<close>

definition convertContent ::
  "(nat \<Rightarrow> string) \<Rightarrow> ('j \<Rightarrow> string) \<Rightarrow> 'j GeminiContent \<Rightarrow> nat \<Rightarrow> ChatMessage \<times> nat" where
  "convertContent random stringify c k =
     (case parts_loop random stringify (g_parts c) (k, [], []) of
        (k', textParts, toolCalls) \<Rightarrow>
          (let r = (if g_role c = ''model'' then ''assistant'' else g_role c);
               content1 = (if length textParts > 0 then join newline textParts else [])
           in if length toolCalls > 0 then
                (\<lparr>oa_role = r,
                  oa_content = (if \<not> truthy (Some content1) then None else Some content1),
                  tool_calls = Some toolCalls\<rparr>, k')
              else
                (\<lparr>oa_role = r, oa_content = Some content1, tool_calls = None\<rparr>, k')))"

fun contents_loop ::
  "(nat \<Rightarrow> string) \<Rightarrow> ('j \<Rightarrow> string) \<Rightarrow> 'j GeminiContent list \<Rightarrow>
   nat \<times> ChatMessage list \<Rightarrow> nat \<times> ChatMessage list" where
  "contents_loop random stringify [] st = st"
| "contents_loop random stringify (c # cs) (k, msgs) =
     (case convertContent random stringify c k of
        (m, k') \<Rightarrow> contents_loop random stringify cs (k', msgs @ [m]))"

definition convertDeclaration :: "'j FunctionDeclaration \<Rightarrow> 'j FunctionTool" where
  "convertDeclaration func =
     \<lparr>tool_type = ''function'',
      tool_function = \<lparr>def_name = fd_name func,
                       def_description = fd_description func,
                       def_parameters = fd_parameters func\<rparr>\<rparr>"

definition convertGeminiToOpenAI ::
  "(nat \<Rightarrow> string) \<Rightarrow> ('j \<Rightarrow> string) \<Rightarrow> 'j GeminiRequest \<Rightarrow> 'j OpenAIParams" where
  "convertGeminiToOpenAI random stringify geminiRequest =
     \<lparr>p_messages = snd (contents_loop random stringify (contents geminiRequest) (0, [])),
      p_tools =
        (case g_tools geminiRequest of
           None \<Rightarrow> None
         | Some ts \<Rightarrow>
             if length ts > 0 then Some (concat (map (map convertDeclaration) ts)) else None),
      p_max_tokens =
        (case generationConfig geminiRequest of None \<Rightarrow> None | Some g \<Rightarrow> maxOutputTokens g),
      p_temperature =
        (case generationConfig geminiRequest of None \<Rightarrow> None | Some g \<Rightarrow> gc_temperature g)\<rparr>"

section \<open>Gemini response translation\<close>

fun function_call_loop ::
  "(string \<Rightarrow> error + 'j) \<Rightarrow> ToolCall list \<Rightarrow> 'j GeminiPart list \<Rightarrow> error + 'j GeminiPart list" where
  "function_call_loop parse [] ps = Inr ps"
| "function_call_loop parse (toolCall # calls) ps =
     (case parse (arguments (call_function toolCall)) of
        Inl e \<Rightarrow> Inl e
      | Inr a \<Rightarrow>
          function_call_loop parse calls
            (ps @ [\<lparr>part_text = None, inlineData = None,
                    functionCall = Some \<lparr>fc_name = fn_name (call_function toolCall), args = a\<rparr>,
                    functionResponse = None\<rparr>]))"

text \<open>
  \<^verbatim>\<open>openaiResponse.choices[0]\<close> of an empty array is \<^verbatim>\<open>undefined\<close>, and reading
  \<^verbatim>\<open>.message\<close> from it throws a \<^verbatim>\<open>TypeError\<close>.
\<close>

definition convertOpenAIToGemini ::
  "(string \<Rightarrow> error + 'j) \<Rightarrow> Completion \<Rightarrow> string \<Rightarrow> error + 'j GeminiResponse" where
  "convertOpenAIToGemini parse openaiResponse originalModel =
     (case choices openaiResponse of
        [] \<Rightarrow> Inl TypeError
      | choice # _ \<Rightarrow>
          (let msg = message choice;
               ps0 = (if truthy (oa_content msg)
                      then [\<lparr>part_text = oa_content msg, inlineData = None,
                              functionCall = None, functionResponse = None\<rparr>]
                      else [])
           in case (case tool_calls msg of
                      None \<Rightarrow> Inr ps0
                    | Some calls \<Rightarrow> function_call_loop parse calls ps0) of
                Inl e \<Rightarrow> Inl e
              | Inr ps \<Rightarrow>
                  Inr \<lparr>candidates =
                         [\<lparr>cand_parts = ps,
                           cand_role = ''model'',
                           finishReason =
                             (if finish_reason choice = Some ''tool_calls'' then ''STOP''
                              else if finish_reason choice = Some ''length'' then ''MAX_TOKENS''
                              else ''STOP''),
                           index = 0\<rparr>],
                       promptTokenCount =
                         num_or (case usage openaiResponse of None \<Rightarrow> None
                                 | Some u \<Rightarrow> prompt_tokens u) 0,
                       candidatesTokenCount =
                         num_or (case usage openaiResponse of None \<Rightarrow> None
                                 | Some u \<Rightarrow> completion_tokens u) 0,
                       totalTokenCount =
                         num_or (case usage openaiResponse of None \<Rightarrow> None
                                 | Some u \<Rightarrow> total_tokens u) 0,
                       modelVersion = originalModel\<rparr>))"

section \<open>The two request handlers\<close>

text \<open>
  Both handlers compute \<^verbatim>\<open>Math.min(x || provider.maxTokens, provider.maxTokens)\<close>
  for the requested value \<open>x\<close>.
\<close>

definition clampMaxTokens :: "int option \<Rightarrow> int \<Rightarrow> int" where
  "clampMaxTokens requested ceiling = min (num_or requested ceiling) ceiling"

definition claudeResponse ::
  "Provider \<Rightarrow> 'j MessagesRequest \<Rightarrow> string \<Rightarrow> Completion \<Rightarrow> 'j ContentBlock list \<Rightarrow> string \<Rightarrow>
   'j ClaudeResponse" where
  "claudeResponse provider request uuid completion blocks stopReason =
     \<lparr>r_id = ''msg_'' @ substring (filter (\<lambda>c. c \<noteq> CHR ''-'') uuid) 0 12,
      r_model = p_name provider @ ''/'' @ model request,
      r_role = ''assistant'',
      r_type = ''message'',
      r_content = blocks,
      stop_reason = stopReason,
      stop_sequence = None,
      input_tokens =
        num_or (case usage completion of None \<Rightarrow> None | Some u \<Rightarrow> prompt_tokens u) 0,
      output_tokens =
        num_or (case usage completion of None \<Rightarrow> None | Some u \<Rightarrow> completion_tokens u) 0\<rparr>"

text \<open>
  A handler takes the request headers and the outcome of \<^verbatim>\<open>await c.req.json()\<close>
  (\<open>Inl\<close> when it throws) and returns the HTTP response together with the list of
  upstream calls it made. Everything after the credential check runs inside
  \<^verbatim>\<open>try\<close>, so every \<open>Inl\<close> ends in the handler's \<^verbatim>\<open>catch\<close> response.
\<close>

definition messages_handler ::
  "'j Runtime \<Rightarrow> Env \<Rightarrow> Headers \<Rightarrow> error + 'j MessagesRequest \<Rightarrow>
   'j HttpResponse \<times> 'j CreateParams list" where
  "messages_handler rt env headers json =
     (let authorization = or_else (Authorization headers) (x_api_key headers);
          apiKey = extractApiKey authorization
      in if \<not> truthy apiKey then
           (\<lparr>status = 401,
             body = ErrorString ''Missing API key in Authorization header or x-api-key header''\<rparr>,
            [])
         else
           (case json of
              Inl e \<Rightarrow> (\<lparr>status = 500, body = ErrorString ''Internal server error''\<rparr>, [])
            | Inr request \<Rightarrow>
                (let provider = createProvider (parseInt rt) env;
                     targetConfig = getTargetConfig (parseInt rt) env;
                     openaiMessages = convertMessages (JSON_stringify rt) (messages request);
                     tools1 = map_option convertTools (tools request);
                     maxTokens1 = clampMaxTokens (max_tokens request) (maxTokens provider);
                     params = \<lparr>c_apiKey = str_or apiKey [],
                               c_baseURL = p_baseURL provider,
                               c_model = cfg_model targetConfig,
                               c_messages = openaiMessages,
                               c_temperature = temperature request,
                               c_max_tokens = maxTokens1,
                               c_tools = tools1,
                               c_tool_choice = tool_choice request,
                               c_stream = False\<rparr>
                 in case create rt params of
                      Inl e \<Rightarrow>
                        (\<lparr>status = 500, body = ErrorString ''Internal server error''\<rparr>, [params])
                    | Inr completion \<Rightarrow>
                        (case choices completion of
                           [] \<Rightarrow>
                             (\<lparr>status = 500, body = ErrorString ''Internal server error''\<rparr>,
                              [params])
                         | choice # _ \<Rightarrow>
                             (case contentAndStopReason (JSON_parse rt) (message choice) of
                                Inl e \<Rightarrow>
                                  (\<lparr>status = 500,
                                    body = ErrorString ''Internal server error''\<rparr>,
                                   [params])
                              | Inr (blocks, stopReason) \<Rightarrow>
                                  (\<lparr>status = 200,
                                    body = ClaudeBody
                                      (claudeResponse provider request (uuidv4 rt) completion
                                         blocks stopReason)\<rparr>,
                                   [params]))))))"

definition gemini_handler ::
  "'j Runtime \<Rightarrow> Env \<Rightarrow> Headers \<Rightarrow> string \<Rightarrow> error + 'j GeminiRequest \<Rightarrow>
   'j HttpResponse \<times> 'j CreateParams list" where
  "gemini_handler rt env headers model_param json =
     (let authorization = or_else (Authorization headers) (x_goog_api_key headers);
          apiKey = extractApiKey authorization
      in if \<not> truthy apiKey then
           (\<lparr>status = 401,
             body = ErrorString
               ''Missing API key in Authorization header or x-goog-api-key header''\<rparr>,
            [])
         else
           (case json of
              Inl e \<Rightarrow>
                (\<lparr>status = 500,
                  body = ErrorObject 500 ''Internal server error'' ''INTERNAL''\<rparr>, [])
            | Inr geminiRequest \<Rightarrow>
                (let provider = createProvider (parseInt rt) env;
                     targetConfig = getTargetConfig (parseInt rt) env;
                     converted =
                       convertGeminiToOpenAI (Math_random rt) (JSON_stringify rt) geminiRequest;
                     maxTokens1 = clampMaxTokens (p_max_tokens converted) (maxTokens provider);
                     params = \<lparr>c_apiKey = str_or apiKey [],
                               c_baseURL = p_baseURL provider,
                               c_model = cfg_model targetConfig,
                               c_messages = p_messages converted,
                               c_temperature = p_temperature converted,
                               c_max_tokens = maxTokens1,
                               c_tools = p_tools converted,
                               c_tool_choice = Some (Inl ''auto''),
                               c_stream = False\<rparr>
                 in case create rt params of
                      Inl e \<Rightarrow>
                        (\<lparr>status = 500,
                          body = ErrorObject 500 ''Internal server error'' ''INTERNAL''\<rparr>,
                         [params])
                    | Inr completion \<Rightarrow>
                        (case convertOpenAIToGemini (JSON_parse rt) completion model_param of
                           Inl e \<Rightarrow>
                             (\<lparr>status = 500,
                               body = ErrorObject 500 ''Internal server error'' ''INTERNAL''\<rparr>,
                              [params])
                         | Inr geminiResponse \<Rightarrow>
                             (\<lparr>status = 200, body = GeminiBody geminiResponse\<rparr>,
                              [params])))))"

section \<open>Notions of the specification\<close>

text \<open>
  The specification partitions the parts of a content entry into text parts and
  function-call parts. The text parts are the parts that carry a \<^verbatim>\<open>text\<close>;
  \<open>text_parts\<close> lists their texts in order, the empty ones included, and
  \<open>nonempty_texts\<close> keeps the texts that are not the empty string. The function-call
  parts are the parts without a non-empty text that carry a \<^verbatim>\<open>functionCall\<close>.
\<close>

definition text_parts :: "'j GeminiPart list \<Rightarrow> string list" where
  "text_parts ps = List.map_filter part_text ps"

definition nonempty_texts :: "'j GeminiPart list \<Rightarrow> string list" where
  "nonempty_texts ps = filter (\<lambda>t. t \<noteq> []) (text_parts ps)"

definition call_parts :: "'j GeminiPart list \<Rightarrow> 'j FunctionCall list" where
  "call_parts ps = List.map_filter functionCall (filter (\<lambda>p. \<not> truthy (part_text p)) ps)"

text \<open>The tool-call payload that a function call is translated to.\<close>

definition call_payload :: "('j \<Rightarrow> string) \<Rightarrow> 'j FunctionCall \<Rightarrow> ToolFunction" where
  "call_payload stringify fc = \<lparr>fn_name = fc_name fc, arguments = stringify (args fc)\<rparr>"

section \<open>Example inputs\<close>

text \<open>
  Concrete values for the parameters, used where a statement is evaluated on an input:
  a small type of JSON values, two JSON texts with the values they denote (every other
  text fails to parse), and an environment that configures nothing.
\<close>

datatype json =
    JNull
  | JBool bool
  | JNum int
  | JInfinity
  | JNegInfinity
  | JStr string
  | JArr "json list"
  | JObj "(string \<times> json) list"

definition example_stringify :: "json \<Rightarrow> string" where
  \<open>example_stringify j =
     (if j = JObj [(''x'', JNum 1)] then ''{"x":1}''
      else if j = JObj [(''location'', JStr ''NYC'')] then ''{"location":"NYC"}''
      else ''null'')\<close>

definition example_parse :: "string \<Rightarrow> error + json" where
  \<open>example_parse s =
     (if s = ''{"x":1}'' then Inr (JObj [(''x'', JNum 1)])
      else if s = ''{"location":"NYC"}'' then Inr (JObj [(''location'', JStr ''NYC'')])
      else if s = ''null'' then Inr JNull
      else Inl SyntaxError)\<close>

definition example_parseInt :: "string \<Rightarrow> int" where
  "example_parseInt s = (if s = ''16384'' then 16384 else 0)"

definition example_runtime :: "error + Completion \<Rightarrow> json Runtime" where
  "example_runtime upstream =
     \<lparr>JSON_stringify = example_stringify,
      JSON_parse = example_parse,
      parseInt = example_parseInt,
      Math_random = (\<lambda>k. ''0.4fzyo82mvyr''),
      uuidv4 = ''123e4567-e89b-12d3-a456-426614174000'',
      create = (\<lambda>params. upstream)\<rparr>"

definition example_env :: Env where
  "example_env =
     \<lparr>TARGET_MODEL = None, TARGET_PROVIDER = None,
      TARGET_BASE_URL = None, TARGET_MAX_TOKENS = None\<rparr>"

definition example_headers :: Headers where
  "example_headers =
     \<lparr>Authorization = Some ''Bearer sk-test'', x_api_key = None, x_goog_api_key = None\<rparr>"

text \<open>
  A Gemini request with one function-call part \<^verbatim>\<open>f({x: 1})\<close>, and an upstream
  completion that carries the same call under an id of its own.
\<close>

definition example_functionCall :: "json FunctionCall" where
  "example_functionCall = \<lparr>fc_name = ''f'', args = JObj [(''x'', JNum 1)]\<rparr>"

definition example_part :: "json GeminiPart" where
  "example_part =
     \<lparr>part_text = None, inlineData = None,
      functionCall = Some example_functionCall, functionResponse = None\<rparr>"

definition example_content :: "json GeminiContent" where
  "example_content = \<lparr>g_role = ''model'', g_parts = [example_part]\<rparr>"

definition example_geminiRequest :: "json GeminiRequest" where
  "example_geminiRequest =
     \<lparr>contents = [example_content], generationConfig = None, g_tools = None\<rparr>"




section \<open>Properties of the built-ins\<close>

lemma join_nonempty: "xs \<noteq> [] \<Longrightarrow> \<forall>x \<in> set xs. x \<noteq> [] \<Longrightarrow> join sep xs \<noteq> []"
  by (induction sep xs rule: join.induct) auto

lemma startsWith_append: "startsWith s p \<longleftrightarrow> (\<exists>r. s = p @ r)"
proof
  assume "startsWith s p"
  then have "s = p @ drop (length p) s"
    unfolding startsWith_def by (metis append_take_drop_id)
  then show "\<exists>r. s = p @ r" ..
next
  assume "\<exists>r. s = p @ r"
  then show "startsWith s p" unfolding startsWith_def by auto
qed

lemma map_from_list_all2:
  "list_all2 (\<lambda>x y. f y = g x) xs ys \<Longrightarrow> map f ys = map g xs"
  by (induction xs ys rule: list_all2_induct) simp_all

section \<open>Credential extraction: properties\<close>

lemma extractApiKey_Bearer: "extractApiKey (Some (''Bearer '' @ rest)) = Some rest"
proof -
  have "startsWith (''Bearer '' @ rest) ''Bearer ''"
    unfolding startsWith_append by blast
  moreover have "slice (''Bearer '' @ rest) 7 = rest"
    by (simp add: slice_def)
  moreover have "truthy (Some (''Bearer '' @ rest))"
    by (simp add: truthy_def)
  ultimately show ?thesis
    unfolding extractApiKey_def by (simp del: append.simps)
qed

lemma extractApiKey_other:
  assumes "a \<noteq> []" and "\<forall>r. a \<noteq> ''Bearer '' @ r"
  shows "extractApiKey (Some a) = Some a"
proof -
  from assms(2) have "\<not> startsWith a ''Bearer ''"
    unfolding startsWith_append by blast
  moreover from assms(1) have "truthy (Some a)"
    by (simp add: truthy_def)
  ultimately show ?thesis
    unfolding extractApiKey_def by simp
qed

text \<open>
  Claim C8, as stated, says that every value that does not begin with \<^verbatim>\<open>Bearer \<close>,
  the empty string included, is returned verbatim. The empty string is falsy, so the guard
  \<^verbatim>\<open>if (!authorization) return null\<close> answers it with the absent result.
\<close>

theorem extractApiKey_empty_counterexample:
  "\<not> startsWith [] ''Bearer '' \<and> extractApiKey (Some []) = None \<and> extractApiKey (Some []) \<noteq> Some []"
  by (simp add: extractApiKey_def truthy_def startsWith_def)

text \<open>
  Claim C8, amended: an absent or empty header value yields an absent result; a value
  that begins with the case-sensitive prefix \<^verbatim>\<open>Bearer \<close> (one space) yields the
  remainder after the prefix; every other non-empty value is returned verbatim.
\<close>

theorem extractApiKey_cases:
  "extractApiKey None = None \<and>
   extractApiKey (Some []) = None \<and>
   extractApiKey (Some (''Bearer '' @ rest)) = Some rest \<and>
   (a \<noteq> [] \<and> (\<forall>r. a \<noteq> ''Bearer '' @ r) \<longrightarrow> extractApiKey (Some a) = Some a)"
proof -
  have "extractApiKey None = None" "extractApiKey (Some []) = None"
    by (simp_all add: extractApiKey_def truthy_def)
  with extractApiKey_Bearer[of rest] extractApiKey_other[of a] show ?thesis
    by blast
qed

theorem extractApiKey_cases_witness:
  "''sk-123'' \<noteq> [] \<and> (\<forall>r. ''sk-123'' \<noteq> ''Bearer '' @ r) \<and>
   extractApiKey (Some ''sk-123'') = Some ''sk-123'' \<and>
   extractApiKey (Some ''Bearer sk-123'') = Some ''sk-123''"
proof -
  have h: "''sk-123'' \<noteq> [] \<and> (\<forall>r. ''sk-123'' \<noteq> ''Bearer '' @ r)"
    by simp
  have e: "''Bearer sk-123'' = ''Bearer '' @ ''sk-123''"
    by simp
  from extractApiKey_cases[of "''sk-123''" "''sk-123''"] h
  show ?thesis unfolding e by blast
qed

section \<open>Claude request translation: properties\<close>

lemma blocks_loop_map:
  "blocks_loop stringify bs parts = parts @ map (block_text stringify) bs"
  by (induction stringify bs parts rule: blocks_loop.induct) simp_all

text \<open>
  Claim C1: a message whose content is a block sequence is flattened to one string, each
  block in order mapped to its text (a text block), to \<^verbatim>\<open>[Tool Use: <name>] \<close>
  followed by the serialised input (a tool-use block) or to the serialised content between
  \<^verbatim>\<open><tool_result>\<close> and \<^verbatim>\<open></tool_result>\<close> (a tool-result block), the pieces
  joined with a newline; a message whose content is a plain string keeps that string; the
  role is copied in both cases.
\<close>

theorem convertMessages_flattens:
  "convertMessages stringify msgs =
     map (\<lambda>m. \<lparr>oa_role = role m,
                oa_content =
                  Some (case content m of
                          StringContent s \<Rightarrow> s
                        | BlockContent bs \<Rightarrow> join newline (map (block_text stringify) bs)),
                tool_calls = None\<rparr>) msgs"
  unfolding convertMessages_def
  by (rule map_cong[OF refl])
     (simp add: convertMessage_def blocks_loop_map split: MessageContent.splits)

theorem convertMessages_flattens_witness:
  \<open>convertMessages example_stringify
     [\<lparr>role = ''user'', content = StringContent ''hi''\<rparr>,
      \<lparr>role = ''assistant'',
       content = BlockContent
         [TextBlock ''calling'',
          ToolUseBlock ''t1'' ''get_weather'' (JObj [(''location'', JStr ''NYC'')]),
          ToolResultBlock ''t1'' (JObj [(''x'', JNum 1)])]\<rparr>] =
   [\<lparr>oa_role = ''user'', oa_content = Some ''hi'', tool_calls = None\<rparr>,
    \<lparr>oa_role = ''assistant'',
     oa_content = Some (''calling'' @ newline @
                        ''[Tool Use: get_weather] {"location":"NYC"}'' @ newline @
                        ''<tool_result>{"x":1}</tool_result>''),
     tool_calls = None\<rparr>]\<close>
  using convertMessages_flattens[of example_stringify
     "[\<lparr>role = ''user'', content = StringContent ''hi''\<rparr>,
      \<lparr>role = ''assistant'',
       content = BlockContent
         [TextBlock ''calling'',
          ToolUseBlock ''t1'' ''get_weather'' (JObj [(''location'', JStr ''NYC'')]),
          ToolResultBlock ''t1'' (JObj [(''x'', JNum 1)])]\<rparr>]"]
  by (simp add: example_stringify_def)

section \<open>Claude response translation: properties\<close>

lemma tool_use_loop_returns:
  "\<forall>t \<in> set calls. \<exists>a. parse (arguments (call_function t)) = Inr a \<Longrightarrow>
   \<exists>bs. tool_use_loop parse calls blocks = Inr (blocks @ bs) \<and>
        list_all2 (\<lambda>t b. \<exists>a. parse (arguments (call_function t)) = Inr a \<and>
                     b = ToolUseBlock (call_id t) (fn_name (call_function t)) a) calls bs"
proof (induction calls arbitrary: blocks)
  case Nil
  then show ?case by simp
next
  case (Cons t calls)
  from Cons.prems obtain a where a: "parse (arguments (call_function t)) = Inr a"
    by auto
  let ?b = "ToolUseBlock (call_id t) (fn_name (call_function t)) a"
  from Cons.prems have "\<forall>t \<in> set calls. \<exists>a. parse (arguments (call_function t)) = Inr a"
    by simp
  from Cons.IH[OF this, of "blocks @ [?b]"] obtain bs where
    bs: "tool_use_loop parse calls (blocks @ [?b]) = Inr ((blocks @ [?b]) @ bs)"
      "list_all2 (\<lambda>t b. \<exists>a. parse (arguments (call_function t)) = Inr a \<and>
                     b = ToolUseBlock (call_id t) (fn_name (call_function t)) a) calls bs"
    by blast
  have "tool_use_loop parse (t # calls) blocks = Inr (blocks @ (?b # bs))"
    using a bs(1) by simp
  moreover have "list_all2 (\<lambda>t b. \<exists>a. parse (arguments (call_function t)) = Inr a \<and>
                     b = ToolUseBlock (call_id t) (fn_name (call_function t)) a) (t # calls) (?b # bs)"
    using a bs(2) by simp
  ultimately show ?case by blast
qed

lemma tool_use_loop_throws:
  "t \<in> set calls \<Longrightarrow> parse (arguments (call_function t)) = Inl e \<Longrightarrow>
   \<exists>e'. tool_use_loop parse calls blocks = Inl e'"
  by (induction calls arbitrary: blocks) (auto split: sum.splits)

text \<open>A non-empty list of tool calls whose arguments all parse: one tool-use block per call.\<close>

lemma contentAndStopReason_tool_calls:
  assumes "tool_calls msg = Some calls"
    and "\<forall>t \<in> set calls. \<exists>a. parse (arguments (call_function t)) = Inr a"
  shows "\<exists>bs. contentAndStopReason parse msg = Inr (bs, ''tool_use'') \<and>
          list_all2 (\<lambda>t b. \<exists>a. parse (arguments (call_function t)) = Inr a \<and>
                     b = ToolUseBlock (call_id t) (fn_name (call_function t)) a) calls bs"
proof -
  from tool_use_loop_returns[OF assms(2), of "[]"] obtain bs where
    "tool_use_loop parse calls [] = Inr bs"
    "list_all2 (\<lambda>t b. \<exists>a. parse (arguments (call_function t)) = Inr a \<and>
                     b = ToolUseBlock (call_id t) (fn_name (call_function t)) a) calls bs"
    by auto
  with assms(1) show ?thesis
    by (simp add: contentAndStopReason_def convertToolCallsToAnthropic_def)
qed

text \<open>An absent list of tool calls: one text block and \<^verbatim>\<open>end_turn\<close>.\<close>

lemma contentAndStopReason_absent:
  "tool_calls msg = None \<Longrightarrow>
   contentAndStopReason parse msg =
     Inr ([TextBlock (case oa_content msg of None \<Rightarrow> [] | Some s \<Rightarrow> s)], ''end_turn'')"
  by (simp add: contentAndStopReason_def str_or_def split: option.splits)

text \<open>Arguments that do not parse make the translation throw.\<close>

lemma contentAndStopReason_throws:
  "tool_calls msg = Some calls \<Longrightarrow> t \<in> set calls \<Longrightarrow>
   parse (arguments (call_function t)) = Inl e \<Longrightarrow>
   \<exists>e'. contentAndStopReason parse msg = Inl e'"
  using tool_use_loop_throws[of t calls parse e "[]"]
  by (auto simp: contentAndStopReason_def convertToolCallsToAnthropic_def)

text \<open>
  Claim C2 says that a completion message whose \<^verbatim>\<open>tool_calls\<close> is absent or empty
  becomes exactly one text block with stop reason \<^verbatim>\<open>end_turn\<close>. The handler tests
  \<^verbatim>\<open>if (msg.tool_calls)\<close>, and an empty array is truthy: for the message
  \<^verbatim>\<open>{role: "assistant", content: "Hello", tool_calls: []}\<close> it produces no content
  block at all, with stop reason \<^verbatim>\<open>tool_use\<close>, and the text is lost; the
  handler returns that response with status 200.
\<close>

theorem empty_tool_calls_yield_tool_use:
  "contentAndStopReason parse
     \<lparr>oa_role = ''assistant'', oa_content = Some ''Hello'', tool_calls = Some []\<rparr> =
     Inr ([], ''tool_use'') \<and>
   fst (messages_handler
          (example_runtime
             (Inr \<lparr>choices =
                     [\<lparr>message = \<lparr>oa_role = ''assistant'', oa_content = Some ''Hello'',
                                   tool_calls = Some []\<rparr>,
                       finish_reason = Some ''stop''\<rparr>],
                   usage = None\<rparr>))
          example_env example_headers
          (Inr \<lparr>model = ''claude-3-opus'',
                messages = [\<lparr>role = ''user'', content = StringContent ''Hi''\<rparr>],
                max_tokens = Some 1000, temperature = None, tools = None,
                tool_choice = None\<rparr>)) =
     \<lparr>status = 200,
      body = ClaudeBody
        \<lparr>r_id = ''msg_123e4567e89b'', r_model = ''groq/claude-3-opus'',
         r_role = ''assistant'', r_type = ''message'', r_content = [],
         stop_reason = ''tool_use'', stop_sequence = None,
         input_tokens = 0, output_tokens = 0\<rparr>\<rparr>"
proof -
  have a: "contentAndStopReason parse
     \<lparr>oa_role = ''assistant'', oa_content = Some ''Hello'', tool_calls = Some []\<rparr> =
     Inr ([], ''tool_use'')"
    by (simp add: contentAndStopReason_def convertToolCallsToAnthropic_def)
  have b: "contentAndStopReason example_parse
     \<lparr>oa_role = ''assistant'', oa_content = Some ''Hello'', tool_calls = Some []\<rparr> =
     Inr ([], ''tool_use'')"
    by (simp add: contentAndStopReason_def convertToolCallsToAnthropic_def)
  have k: "truthy (extractApiKey (or_else (Authorization example_headers) (x_api_key example_headers)))"
    by (simp add: example_headers_def or_else_def truthy_def extractApiKey_def startsWith_def slice_def)
  have p: "createProvider example_parseInt example_env =
      \<lparr>p_name = ''groq'', p_baseURL = ''https://api.groq.com/openai/v1'',
       p_models = [''moonshotai/kimi-k2-instruct''], maxTokens = 16384\<rparr>"
    by (simp add: createProvider_def getTargetConfig_def example_env_def example_parseInt_def str_or_def)
  show ?thesis
    using k by (simp add: a b messages_handler_def Let_def example_runtime_def p substring_def claudeResponse_def num_or_def)
qed

section \<open>Gemini request translation: properties\<close>

lemma nonempty_texts_eq:
  "nonempty_texts ps =
     map (\<lambda>p. str_or (part_text p) []) (filter (\<lambda>p. truthy (part_text p)) ps)"
  by (induction ps)
     (auto simp: nonempty_texts_def text_parts_def List.map_filter_simps truthy_def str_or_def
           split: option.splits)

lemma nonempty_texts_nonempty: "\<forall>x \<in> set (nonempty_texts ps). x \<noteq> []"
  by (auto simp: nonempty_texts_eq truthy_def str_or_def split: option.splits)

lemma parts_loop_state:
  "parts_loop random stringify ps (k, tp, tc) = (k', tp', tc') \<Longrightarrow>
     tp' = tp @ nonempty_texts ps \<and>
     map call_function tc' = map call_function tc @ map (call_payload stringify) (call_parts ps) \<and>
     k' = k + length (call_parts ps)"
proof (induction ps arbitrary: k tp tc)
  case Nil
  then show ?case by (simp add: nonempty_texts_eq call_parts_def List.map_filter_simps)
next
  case (Cons p ps)
  show ?case
  proof (cases "truthy (part_text p)")
    case True
    with Cons.prems have "parts_loop random stringify ps (k, tp @ [str_or (part_text p) []], tc) = (k', tp', tc')"
      by simp
    from Cons.IH[OF this] True show ?thesis
      by (simp add: nonempty_texts_eq call_parts_def)
  next
    case False
    show ?thesis
    proof (cases "functionCall p")
      case None
      with False Cons.prems have "parts_loop random stringify ps (k, tp, tc) = (k', tp', tc')"
        by simp
      from Cons.IH[OF this] False None show ?thesis
        by (simp add: nonempty_texts_eq call_parts_def List.map_filter_simps)
    next
      case (Some fc)
      with False Cons.prems have "parts_loop random stringify ps
               (Suc k, tp,
                tc @
                  [\<lparr>call_id = ''call_'' @ substring (random k) 2 15,
                    call_type = ''function'',
                    call_function = \<lparr>fn_name = fc_name fc, arguments = stringify (args fc)\<rparr>\<rparr>]) = (k', tp', tc')"
        by simp
      from Cons.IH[OF this] False Some show ?thesis
        by (simp add: nonempty_texts_eq call_parts_def List.map_filter_simps call_payload_def)
    qed
  qed
qed

lemma convertContent_fields:
  "convertContent random stringify c k = (m, k') \<Longrightarrow>
     oa_role m = (if g_role c = ''model'' then ''assistant'' else g_role c) \<and>
     oa_content m =
       (if nonempty_texts (g_parts c) = [] \<and> call_parts (g_parts c) \<noteq> [] then None
        else Some (join newline (nonempty_texts (g_parts c)))) \<and>
     map_option (map call_function) (tool_calls m) =
       (if call_parts (g_parts c) = [] then None
        else Some (map (call_payload stringify) (call_parts (g_parts c))))"
proof -
  assume a: "convertContent random stringify c k = (m, k')"
  obtain k1 tp tc where l: "parts_loop random stringify (g_parts c) (k, [], []) = (k1, tp, tc)"
    by (cases "parts_loop random stringify (g_parts c) (k, [], [])") auto
  from parts_loop_state[OF l]
  have tp: "tp = nonempty_texts (g_parts c)"
    and tc: "map call_function tc = map (call_payload stringify) (call_parts (g_parts c))"
    by simp_all
  from tc have tc_nil: "tc = [] \<longleftrightarrow> call_parts (g_parts c) = []"
    by (metis map_is_Nil_conv)
  have ne: "tp \<noteq> [] \<Longrightarrow> join newline tp \<noteq> []"
    using join_nonempty[of tp newline] nonempty_texts_nonempty[of "g_parts c"] tp by simp
  show ?thesis
  proof (cases "tc = []")
    case True
    with a l tp tc_nil show ?thesis
      by (auto simp: convertContent_def Let_def)
  next
    case False
    with a l tp tc tc_nil ne show ?thesis
      by (auto simp: convertContent_def Let_def truthy_def)
  qed
qed

lemma contents_loop_messages:
  "\<exists>ms. snd (contents_loop random stringify cs (k, msgs)) = msgs @ ms \<and>
        list_all2 (\<lambda>c m. \<exists>k1. m = fst (convertContent random stringify c k1)) cs ms"
proof (induction cs arbitrary: k msgs)
  case Nil
  then show ?case by simp
next
  case (Cons c cs)
  obtain m k' where s: "convertContent random stringify c k = (m, k')"
    by (cases "convertContent random stringify c k") auto
  from Cons.IH[of k' "msgs @ [m]"] obtain ms where
    ms: "snd (contents_loop random stringify cs (k', msgs @ [m])) = (msgs @ [m]) @ ms"
      "list_all2 (\<lambda>c m. \<exists>k1. m = fst (convertContent random stringify c k1)) cs ms"
    by blast
  have "m = fst (convertContent random stringify c k)" using s by simp
  then have "list_all2 (\<lambda>c m. \<exists>k1. m = fst (convertContent random stringify c k1)) (c # cs) (m # ms)"
    using ms(2) by auto
  moreover have "snd (contents_loop random stringify (c # cs) (k, msgs)) = msgs @ (m # ms)"
    using s ms(1) by simp
  ultimately show ?case by blast
qed

lemma request_messages:
  "list_all2 (\<lambda>c m. \<exists>k1. m = fst (convertContent random stringify c k1))
     (contents g) (p_messages (convertGeminiToOpenAI random stringify g))"
  using contents_loop_messages[of random stringify "contents g" 0 "[]"]
  by (auto simp: convertGeminiToOpenAI_def)



lemma request_tool_calls:
  "map (\<lambda>m. map_option (map call_function) (tool_calls m))
       (p_messages (convertGeminiToOpenAI random stringify g)) =
     map (\<lambda>c. if call_parts (g_parts c) = [] then None
              else Some (map (call_payload stringify) (call_parts (g_parts c)))) (contents g)"
proof (rule map_from_list_all2)
  show "list_all2 (\<lambda>c m. map_option (map call_function) (tool_calls m) =
            (if call_parts (g_parts c) = [] then None
             else Some (map (call_payload stringify) (call_parts (g_parts c)))))
          (contents g) (p_messages (convertGeminiToOpenAI random stringify g))"
    by (rule list_all2_mono[OF request_messages])
       (metis convertContent_fields prod.collapse)
qed

lemma request_message_fields:
  assumes "i < length (contents g)"
  shows "length (p_messages (convertGeminiToOpenAI random stringify g)) = length (contents g)"
    and "oa_content (p_messages (convertGeminiToOpenAI random stringify g) ! i) =
       (if nonempty_texts (g_parts (contents g ! i)) = [] \<and> call_parts (g_parts (contents g ! i)) \<noteq> []
        then None
        else Some (join newline (nonempty_texts (g_parts (contents g ! i)))))"
    and "map_option (map call_function)
           (tool_calls (p_messages (convertGeminiToOpenAI random stringify g) ! i)) =
       (if call_parts (g_parts (contents g ! i)) = [] then None
        else Some (map (call_payload stringify) (call_parts (g_parts (contents g ! i)))))"
proof -
  let ?ms = "p_messages (convertGeminiToOpenAI random stringify g)"
  note all = request_messages[of random stringify g]
  show len: "length ?ms = length (contents g)"
    using all by (simp add: list_all2_lengthD)
  from list_all2_nthD[OF all assms]
  obtain k where "?ms ! i = fst (convertContent random stringify (contents g ! i) k)"
    by blast
  then have "convertContent random stringify (contents g ! i) k =
      (?ms ! i, snd (convertContent random stringify (contents g ! i) k))"
    by simp
  note f = convertContent_fields[OF this]
  from f show "oa_content (?ms ! i) =
       (if nonempty_texts (g_parts (contents g ! i)) = [] \<and> call_parts (g_parts (contents g ! i)) \<noteq> []
        then None
        else Some (join newline (nonempty_texts (g_parts (contents g ! i)))))"
    by (rule conjunct1[OF conjunct2])
  from f show "map_option (map call_function) (tool_calls (?ms ! i)) =
       (if call_parts (g_parts (contents g ! i)) = [] then None
        else Some (map (call_payload stringify) (call_parts (g_parts (contents g ! i)))))"
    by (rule conjunct2[OF conjunct2])
qed



text \<open>
  Three cases of the inner loop that the partition above makes precise: a part with an
  empty text contributes nothing to the joined text; a part with a non-empty text and a
  function call counts as text only; a part with neither is dropped.
\<close>

lemma empty_text_part_dropped:
  "fst (convertContent random stringify
     \<lparr>g_role = ''user'',
      g_parts = [\<lparr>part_text = Some [], inlineData = None,
                  functionCall = None, functionResponse = None\<rparr>,
                 \<lparr>part_text = Some ''a'', inlineData = None,
                  functionCall = None, functionResponse = None\<rparr>]\<rparr> k) =
   \<lparr>oa_role = ''user'', oa_content = Some ''a'', tool_calls = None\<rparr>"
  by (simp add: convertContent_def truthy_def str_or_def)

lemma text_part_with_functionCall:
  "fst (convertContent random stringify
     \<lparr>g_role = ''model'',
      g_parts = [\<lparr>part_text = Some ''a'', inlineData = None,
                  functionCall = Some fc, functionResponse = None\<rparr>]\<rparr> k) =
   \<lparr>oa_role = ''assistant'', oa_content = Some ''a'', tool_calls = None\<rparr>"
  by (simp add: convertContent_def truthy_def str_or_def)

lemma other_parts_dropped:
  "fst (convertContent random stringify
     \<lparr>g_role = ''user'',
      g_parts = [\<lparr>part_text = None, inlineData = Some d,
                  functionCall = None, functionResponse = None\<rparr>,
                 \<lparr>part_text = None, inlineData = None,
                  functionCall = None, functionResponse = Some fr\<rparr>]\<rparr> k) =
   \<lparr>oa_role = ''user'', oa_content = Some [], tool_calls = None\<rparr>"
  by (simp add: convertContent_def truthy_def)



text \<open>
  Claim C4: for the \<open>i\<close>-th content entry and the \<open>i\<close>-th message produced, if the entry
  has a function-call part then the message carries a non-empty \<^verbatim>\<open>tool_calls\<close> list
  with one entry per function-call part, in order, and its content is \<^verbatim>\<open>null\<close>
  exactly when the entry has no text part; no message has an absent or empty
  \<^verbatim>\<open>tool_calls\<close> together with a content that is not a string.
\<close>

theorem tool_calls_content_invariant:
  assumes "i < length (contents g)"
  shows "let c = contents g ! i; m = p_messages (convertGeminiToOpenAI random stringify g) ! i in
     length (p_messages (convertGeminiToOpenAI random stringify g)) = length (contents g) \<and>
     (call_parts (g_parts c) \<noteq> [] \<longrightarrow>
        (\<exists>tcs. tool_calls m = Some tcs \<and> tcs \<noteq> [] \<and>
           map call_function tcs = map (call_payload stringify) (call_parts (g_parts c)) \<and>
           (oa_content m = None \<longleftrightarrow> nonempty_texts (g_parts c) = []))) \<and>
     \<not> ((tool_calls m = None \<or> tool_calls m = Some []) \<and> oa_content m = None)"
proof -
  define c where "c = contents g ! i"
  define m where "m = p_messages (convertGeminiToOpenAI random stringify g) ! i"
  note f = request_message_fields[OF assms, of random stringify, folded c_def m_def]
  have a: "call_parts (g_parts c) \<noteq> [] \<longrightarrow>
        (\<exists>tcs. tool_calls m = Some tcs \<and> tcs \<noteq> [] \<and>
           map call_function tcs = map (call_payload stringify) (call_parts (g_parts c)) \<and>
           (oa_content m = None \<longleftrightarrow> nonempty_texts (g_parts c) = []))"
  proof
    assume ne: "call_parts (g_parts c) \<noteq> []"
    with f(3) obtain tcs where tcs: "tool_calls m = Some tcs"
      "map call_function tcs = map (call_payload stringify) (call_parts (g_parts c))"
      by auto
    from tcs(2) ne have "tcs \<noteq> []" by auto
    moreover from f(2) ne have "oa_content m = None \<longleftrightarrow> nonempty_texts (g_parts c) = []"
      by simp
    ultimately show "\<exists>tcs. tool_calls m = Some tcs \<and> tcs \<noteq> [] \<and>
           map call_function tcs = map (call_payload stringify) (call_parts (g_parts c)) \<and>
           (oa_content m = None \<longleftrightarrow> nonempty_texts (g_parts c) = [])"
      using tcs by simp
  qed
  have b: "\<not> ((tool_calls m = None \<or> tool_calls m = Some []) \<and> oa_content m = None)"
  proof
    assume h: "(tool_calls m = None \<or> tool_calls m = Some []) \<and> oa_content m = None"
    then have "call_parts (g_parts c) \<noteq> []" using f(2) by (simp split: if_splits)
    with a h show False by auto
  qed
  from f(1) a b show ?thesis unfolding c_def m_def by (simp add: Let_def)
qed

theorem tool_calls_content_invariant_witness:
  \<open>0 < length (contents example_geminiRequest) \<and>
   call_parts (g_parts (contents example_geminiRequest ! 0)) \<noteq> [] \<and>
   nonempty_texts (g_parts (contents example_geminiRequest ! 0)) = [] \<and>
   (\<exists>tcs. tool_calls (p_messages (convertGeminiToOpenAI (\<lambda>k. ''0.4fzyo82mvyr'')
                          example_stringify example_geminiRequest) ! 0) = Some tcs \<and>
      tcs \<noteq> [] \<and>
      map call_function tcs = [\<lparr>fn_name = ''f'', arguments = ''{"x":1}''\<rparr>]) \<and>
   oa_content (p_messages (convertGeminiToOpenAI (\<lambda>k. ''0.4fzyo82mvyr'')
                 example_stringify example_geminiRequest) ! 0) = None\<close>
proof -
  have h: "0 < length (contents example_geminiRequest)"
    by (simp add: example_geminiRequest_def)
  have c: \<open>call_parts (g_parts (contents example_geminiRequest ! 0)) = [example_functionCall]\<close>
    by (simp add: example_geminiRequest_def example_content_def example_part_def call_parts_def
          truthy_def List.map_filter_simps)
  have t: "nonempty_texts (g_parts (contents example_geminiRequest ! 0)) = []"
    by (simp add: example_geminiRequest_def example_content_def example_part_def nonempty_texts_eq
          truthy_def)
  have p: \<open>call_payload example_stringify example_functionCall =
           \<lparr>fn_name = ''f'', arguments = ''{"x":1}''\<rparr>\<close>
    by (simp add: call_payload_def example_functionCall_def example_stringify_def)
  from tool_calls_content_invariant[OF h, of "\<lambda>k. ''0.4fzyo82mvyr''" example_stringify] h c t p
  show ?thesis by (auto simp: Let_def)
qed

section \<open>Gemini response translation: properties\<close>



lemma convertOpenAIToGemini_text_only:
  assumes "choices resp = choice # rest" and "tool_calls (message choice) = None"
  shows "\<exists>r cand. convertOpenAIToGemini parse resp originalModel = Inr r \<and>
           candidates r = [cand] \<and>
           cand_parts cand =
             (if truthy (oa_content (message choice))
              then [\<lparr>part_text = oa_content (message choice), inlineData = None,
                      functionCall = None, functionResponse = None\<rparr>]
              else [])"
  using assms by (simp add: convertOpenAIToGemini_def Let_def)






section \<open>The handlers: properties\<close>

lemma messages_handler_missing_credential:
  "\<not> truthy (extractApiKey (or_else (Authorization headers) (x_api_key headers))) \<Longrightarrow>
   messages_handler rt env headers json =
     (\<lparr>status = 401,
       body = ErrorString ''Missing API key in Authorization header or x-api-key header''\<rparr>, [])"
  by (simp add: messages_handler_def Let_def)

lemma gemini_handler_missing_credential:
  "\<not> truthy (extractApiKey (or_else (Authorization headers) (x_goog_api_key headers))) \<Longrightarrow>
   gemini_handler rt env headers model_param json =
     (\<lparr>status = 401,
       body = ErrorString ''Missing API key in Authorization header or x-goog-api-key header''\<rparr>, [])"
  by (simp add: gemini_handler_def Let_def)

lemma messages_handler_call:
  assumes "truthy (extractApiKey (or_else (Authorization headers) (x_api_key headers)))"
  shows "\<exists>u. snd (messages_handler rt env headers (Inr request)) = [u] \<and>
             c_max_tokens u =
               clampMaxTokens (max_tokens request) (maxTokens (createProvider (parseInt rt) env)) \<and>
             c_messages u = convertMessages (JSON_stringify rt) (messages request)"
  using assms
  by (simp add: messages_handler_def Let_def split: sum.splits list.splits prod.splits)

lemma gemini_handler_call:
  assumes "truthy (extractApiKey (or_else (Authorization headers) (x_goog_api_key headers)))"
  shows "\<exists>u. snd (gemini_handler rt env headers model_param (Inr g)) = [u] \<and>
             c_max_tokens u =
               clampMaxTokens
                 (case generationConfig g of None \<Rightarrow> None | Some gc \<Rightarrow> maxOutputTokens gc)
                 (maxTokens (createProvider (parseInt rt) env)) \<and>
             c_messages u = p_messages (convertGeminiToOpenAI (Math_random rt) (JSON_stringify rt) g)"
  using assms
  by (simp add: gemini_handler_def Let_def convertGeminiToOpenAI_def split: sum.splits list.splits prod.splits)

lemma messages_handler_failure_shape:
  "status (fst (messages_handler rt env headers json)) = 200 \<or>
   (\<exists>s. body (fst (messages_handler rt env headers json)) = ErrorString s)"
  by (simp add: messages_handler_def Let_def split: sum.splits list.splits prod.splits)

lemma gemini_handler_failure_shape:
  "truthy (extractApiKey (or_else (Authorization headers) (x_goog_api_key headers))) \<Longrightarrow>
   status (fst (gemini_handler rt env headers model_param json)) = 200 \<or>
   body (fst (gemini_handler rt env headers model_param json)) =
     ErrorObject 500 ''Internal server error'' ''INTERNAL''"
  by (simp add: gemini_handler_def Let_def split: sum.splits list.splits prod.splits)

text \<open>
  Claim C7: the max-token value sent upstream is the minimum of the ceiling and of the
  requested value, where an absent or zero request counts as the ceiling; it never exceeds
  the ceiling; a request of 20000 under the ceiling 16384 gives 16384 and a request of
  1000 gives 1000. Each handler, given a credential and a request body, makes exactly one
  upstream call, and that call carries this value for the requested \<^verbatim>\<open>max_tokens\<close>
  (Claude) or \<^verbatim>\<open>generationConfig.maxOutputTokens\<close> (Gemini).
\<close>

theorem clampMaxTokens_bound:
  "clampMaxTokens requested ceiling =
     min (case requested of None \<Rightarrow> ceiling | Some n \<Rightarrow> if n = 0 then ceiling else n) ceiling \<and>
   clampMaxTokens requested ceiling \<le> ceiling \<and>
   clampMaxTokens (Some 20000) 16384 = 16384 \<and>
   clampMaxTokens (Some 1000) 16384 = 1000 \<and>
   (truthy (extractApiKey (or_else (Authorization headers) (x_api_key headers))) \<longrightarrow>
      (\<exists>u. snd (messages_handler rt env headers (Inr request)) = [u] \<and>
           c_max_tokens u =
             clampMaxTokens (max_tokens request) (maxTokens (createProvider (parseInt rt) env)))) \<and>
   (truthy (extractApiKey (or_else (Authorization headers) (x_goog_api_key headers))) \<longrightarrow>
      (\<exists>u. snd (gemini_handler rt env headers model_param (Inr g)) = [u] \<and>
           c_max_tokens u =
             clampMaxTokens
               (case generationConfig g of None \<Rightarrow> None | Some gc \<Rightarrow> maxOutputTokens gc)
               (maxTokens (createProvider (parseInt rt) env))))"
proof -
  have "clampMaxTokens requested ceiling =
     min (case requested of None \<Rightarrow> ceiling | Some n \<Rightarrow> if n = 0 then ceiling else n) ceiling"
    by (simp add: clampMaxTokens_def num_or_def split: option.splits)
  moreover have "clampMaxTokens requested ceiling \<le> ceiling"
    by (simp add: clampMaxTokens_def)
  moreover have "clampMaxTokens (Some 20000) 16384 = 16384" "clampMaxTokens (Some 1000) 16384 = 1000"
    by (simp_all add: clampMaxTokens_def num_or_def)
  moreover have "truthy (extractApiKey (or_else (Authorization headers) (x_api_key headers))) \<longrightarrow>
      (\<exists>u. snd (messages_handler rt env headers (Inr request)) = [u] \<and>
           c_max_tokens u =
             clampMaxTokens (max_tokens request) (maxTokens (createProvider (parseInt rt) env)))"
    using messages_handler_call[of headers rt env request] by blast
  moreover have "truthy (extractApiKey (or_else (Authorization headers) (x_goog_api_key headers))) \<longrightarrow>
      (\<exists>u. snd (gemini_handler rt env headers model_param (Inr g)) = [u] \<and>
           c_max_tokens u =
             clampMaxTokens
               (case generationConfig g of None \<Rightarrow> None | Some gc \<Rightarrow> maxOutputTokens gc)
               (maxTokens (createProvider (parseInt rt) env)))"
    using gemini_handler_call[of headers rt env model_param g] by blast
  ultimately show ?thesis by blast
qed

theorem clampMaxTokens_bound_witness:
  "truthy (extractApiKey (or_else (Authorization example_headers) (x_api_key example_headers))) \<and>
   truthy (extractApiKey (or_else (Authorization example_headers) (x_goog_api_key example_headers))) \<and>
   (\<exists>u. snd (messages_handler (example_runtime (Inl UpstreamError)) example_env example_headers
              (Inr \<lparr>model = ''claude-3-opus'', messages = [], max_tokens = Some 20000,
                    temperature = None, tools = None, tool_choice = None\<rparr>)) = [u] \<and>
        c_max_tokens u = 16384) \<and>
   (\<exists>u. snd (gemini_handler (example_runtime (Inl UpstreamError)) example_env example_headers
              ''gemini-1.5-pro''
              (Inr \<lparr>contents = [],
                    generationConfig = Some \<lparr>gc_temperature = None, maxOutputTokens = Some 1000,
                                             topP = None, topK = None\<rparr>,
                    g_tools = None\<rparr>)) = [u] \<and>
        c_max_tokens u = 1000)"
proof -
  have h1: "truthy (extractApiKey (or_else (Authorization example_headers) (x_api_key example_headers)))"
    by (simp add: example_headers_def or_else_def truthy_def extractApiKey_def startsWith_def slice_def)
  have h2: "truthy (extractApiKey (or_else (Authorization example_headers) (x_goog_api_key example_headers)))"
    by (simp add: example_headers_def or_else_def truthy_def extractApiKey_def startsWith_def slice_def)
  have c: "maxTokens (createProvider (parseInt (example_runtime (Inl UpstreamError))) example_env) = 16384"
    by (simp add: createProvider_def getTargetConfig_def example_runtime_def example_env_def
          example_parseInt_def str_or_def)
  from clampMaxTokens_bound[of "Some 20000" 16384 example_headers
         "example_runtime (Inl UpstreamError)" example_env
         "\<lparr>model = ''claude-3-opus'', messages = [], max_tokens = Some 20000,
           temperature = None, tools = None, tool_choice = None\<rparr>"
         "''gemini-1.5-pro''"
         "\<lparr>contents = [],
           generationConfig = Some \<lparr>gc_temperature = None, maxOutputTokens = Some 1000,
                                    topP = None, topK = None\<rparr>,
           g_tools = None\<rparr>"] h1 h2 c
  show ?thesis by auto
qed

text \<open>
  Claim C10: a Claude request whose \<^verbatim>\<open>max_tokens\<close> is 0 and a Gemini request whose
  \<^verbatim>\<open>generationConfig.maxOutputTokens\<close> is 0 are sent upstream with the provider
  ceiling as the max-token value.
\<close>

theorem zero_request_gets_ceiling:
  "(max_tokens request = Some 0 \<and>
    truthy (extractApiKey (or_else (Authorization headers) (x_api_key headers))) \<longrightarrow>
      (\<exists>u. snd (messages_handler rt env headers (Inr request)) = [u] \<and>
           c_max_tokens u = maxTokens (createProvider (parseInt rt) env))) \<and>
   (generationConfig g = Some gc \<and> maxOutputTokens gc = Some 0 \<and>
    truthy (extractApiKey (or_else (Authorization headers) (x_goog_api_key headers))) \<longrightarrow>
      (\<exists>u. snd (gemini_handler rt env headers model_param (Inr g)) = [u] \<and>
           c_max_tokens u = maxTokens (createProvider (parseInt rt) env)))"
proof -
  have z: "\<And>c. clampMaxTokens (Some 0) c = c"
    by (simp add: clampMaxTokens_def num_or_def)
  have "max_tokens request = Some 0 \<and>
    truthy (extractApiKey (or_else (Authorization headers) (x_api_key headers))) \<longrightarrow>
      (\<exists>u. snd (messages_handler rt env headers (Inr request)) = [u] \<and>
           c_max_tokens u = maxTokens (createProvider (parseInt rt) env))"
    using messages_handler_call[of headers rt env request] z by auto
  moreover have "generationConfig g = Some gc \<and> maxOutputTokens gc = Some 0 \<and>
    truthy (extractApiKey (or_else (Authorization headers) (x_goog_api_key headers))) \<longrightarrow>
      (\<exists>u. snd (gemini_handler rt env headers model_param (Inr g)) = [u] \<and>
           c_max_tokens u = maxTokens (createProvider (parseInt rt) env))"
    using gemini_handler_call[of headers rt env model_param g] z by auto
  ultimately show ?thesis by (rule conjI)
qed

theorem zero_request_gets_ceiling_witness:
  "truthy (extractApiKey (or_else (Authorization example_headers) (x_api_key example_headers))) \<and>
   truthy (extractApiKey (or_else (Authorization example_headers) (x_goog_api_key example_headers))) \<and>
   (\<exists>u. snd (messages_handler (example_runtime (Inl UpstreamError)) example_env example_headers
              (Inr \<lparr>model = ''claude-3-opus'', messages = [], max_tokens = Some 0,
                    temperature = None, tools = None, tool_choice = None\<rparr>)) = [u] \<and>
        c_max_tokens u = 16384) \<and>
   (\<exists>u. snd (gemini_handler (example_runtime (Inl UpstreamError)) example_env example_headers
              ''gemini-1.5-pro''
              (Inr \<lparr>contents = [],
                    generationConfig = Some \<lparr>gc_temperature = None, maxOutputTokens = Some 0,
                                             topP = None, topK = None\<rparr>,
                    g_tools = None\<rparr>)) = [u] \<and>
        c_max_tokens u = 16384)"
proof -
  have h1: "truthy (extractApiKey (or_else (Authorization example_headers) (x_api_key example_headers)))"
    by (simp add: example_headers_def or_else_def truthy_def extractApiKey_def startsWith_def slice_def)
  have h2: "truthy (extractApiKey (or_else (Authorization example_headers) (x_goog_api_key example_headers)))"
    by (simp add: example_headers_def or_else_def truthy_def extractApiKey_def startsWith_def slice_def)
  have c: "maxTokens (createProvider (parseInt (example_runtime (Inl UpstreamError))) example_env) = 16384"
    by (simp add: createProvider_def getTargetConfig_def example_runtime_def example_env_def
          example_parseInt_def str_or_def)
  from zero_request_gets_ceiling[of
         "\<lparr>model = ''claude-3-opus'', messages = [], max_tokens = Some 0,
           temperature = None, tools = None, tool_choice = None\<rparr>"
         example_headers "example_runtime (Inl UpstreamError)" example_env
         "\<lparr>contents = [],
           generationConfig = Some \<lparr>gc_temperature = None, maxOutputTokens = Some 0,
                                    topP = None, topK = None\<rparr>,
           g_tools = None\<rparr>"
         "\<lparr>gc_temperature = None, maxOutputTokens = Some 0, topP = None, topK = None\<rparr>"
         "''gemini-1.5-pro''"] h1 h2 c
  show ?thesis by auto
qed

text \<open>
  Claim C9 says that every failure on the Gemini path, a missing credential included,
  is answered in the nested shape \<^verbatim>\<open>{error: {code, message, status}}\<close>. The
  \<^verbatim>\<open>catch\<close> branch of the Gemini handler does so, but its credential check answers
  with the flat \<^verbatim>\<open>{error: string}\<close> object and status 401. No upstream call is made.
\<close>

theorem gemini_missing_credential_flat_error:
  "gemini_handler rt env \<lparr>Authorization = None, x_api_key = k, x_goog_api_key = None\<rparr> model_param json =
     (\<lparr>status = 401,
       body = ErrorString ''Missing API key in Authorization header or x-goog-api-key header''\<rparr>, [])"
  by (simp add: gemini_handler_def Let_def or_else_def truthy_def extractApiKey_def)

end
